theory Spec2Isabelle
  imports Main "HOL-Library.Word"
begin

section \<open>Operators of a wrapped type\<close>

text \<open>
  Every class template of \<^verbatim>\<open>iterators++.h\<close> is written against the operators of
  the type it wraps (\<^verbatim>\<open>++\<close>, \<^verbatim>\<open>--\<close>, \<^verbatim>\<open>+=\<close>, \<^verbatim>\<open>-=\<close>, binary \<^verbatim>\<open>-\<close>,
  \<^verbatim>\<open><\<close>, \<^verbatim>\<open>==\<close>). A template argument is therefore a carrier type \<open>'a\<close>, a
  difference type \<open>'d\<close> and the table of these operators. \<open>op_minus\<close> includes the
  implicit conversion of the result to the difference type. The operators are total
  functions: an operator that throws is outside this model.
\<close>

record ('a, 'd) operators =
  op_inc :: "'a \<Rightarrow> 'a"
  op_dec :: "'a \<Rightarrow> 'a"
  op_add_assign :: "'a \<Rightarrow> 'd \<Rightarrow> 'a"
  op_sub_assign :: "'a \<Rightarrow> 'd \<Rightarrow> 'a"
  op_minus :: "'a \<Rightarrow> 'a \<Rightarrow> 'd"
  op_less :: "'a \<Rightarrow> 'a \<Rightarrow> bool"
  op_eq :: "'a \<Rightarrow> 'a \<Rightarrow> bool"

section \<open>value_iterator_traits: capability deduction\<close>

text \<open>
  The traits class computes with types, so element types are data here: what
  \<^verbatim>\<open>std::is_integral\<close>, \<^verbatim>\<open>std::is_pointer\<close> and \<^verbatim>\<open>std::make_signed_t\<close> say
  about a type, and which of the expressions \<^verbatim>\<open>++x\<close>, \<^verbatim>\<open>--x\<close>, \<^verbatim>\<open>x += d\<close>,
  \<^verbatim>\<open>x == y\<close> are well-formed for it. Integer types are given by signedness and
  conversion rank; plain \<^verbatim>\<open>char\<close> is a type of its own. \<^verbatim>\<open>bool\<close> is left out:
  \<^verbatim>\<open>std::make_signed<bool>\<close> is not a valid instantiation; so are the wide character
  types, which are not given by a rank. A class type is described
  by the operators it declares; for prefix decrement the description records whether the
  expression has type \<^verbatim>\<open>void\<close>, which the traits class looks at.
\<close>

datatype int_rank = Char_rank | Short_rank | Int_rank | Long_rank | Long_long_rank

datatype integral_type = Plain_char | Signed_int int_rank | Unsigned_int int_rank

datatype pointee = Object_pointee | Void_pointee | Function_pointee

datatype expr_type = Void_type | Non_void_type

datatype class_ops =
  Class_ops (has_prefix_inc: bool) (has_equality: bool)
    (prefix_dec: "expr_type option") (has_add_assign: bool)

datatype elem_type =
  Integral integral_type | Floating_point | Pointer pointee | Class_type class_ops

fun is_integral :: "elem_type \<Rightarrow> bool" where
  "is_integral (Integral k) = True"
| "is_integral T = False"

fun is_pointer :: "elem_type \<Rightarrow> bool" where
  "is_pointer (Pointer q) = True"
| "is_pointer T = False"

fun rank :: "integral_type \<Rightarrow> int_rank" where
  "rank Plain_char = Char_rank"
| "rank (Signed_int r) = r"
| "rank (Unsigned_int r) = r"

text \<open>The width of an integer type is that of its rank, whatever the platform makes it.\<close>

definition width :: "(int_rank \<Rightarrow> nat) \<Rightarrow> integral_type \<Rightarrow> nat" where
  "width bits k = bits (rank k)"

text \<open>
  \<^verbatim>\<open>std::make_signed_t<T>\<close>: the signed integer type of the rank of \<^verbatim>\<open>T\<close>; no type
  when \<^verbatim>\<open>T\<close> is not integral.
\<close>

fun make_signed_t :: "elem_type \<Rightarrow> integral_type option" where
  "make_signed_t (Integral k) = Some (Signed_int (rank k))"
| "make_signed_t T = None"

text \<open>
  The type of the expression \<^verbatim>\<open>--*(T*)nullptr\<close>, \<open>None\<close> when it is ill-formed. The
  built-in operator exists for arithmetic types and for pointers to objects.
\<close>

fun prefix_dec_expr :: "elem_type \<Rightarrow> expr_type option" where
  "prefix_dec_expr (Integral k) = Some Non_void_type"
| "prefix_dec_expr Floating_point = Some Non_void_type"
| "prefix_dec_expr (Pointer Object_pointee) = Some Non_void_type"
| "prefix_dec_expr (Pointer q) = None"
| "prefix_dec_expr (Class_type c) = prefix_dec c"

fun supports_prefix_inc :: "elem_type \<Rightarrow> bool" where
  "supports_prefix_inc (Integral k) = True"
| "supports_prefix_inc Floating_point = True"
| "supports_prefix_inc (Pointer Object_pointee) = True"
| "supports_prefix_inc (Pointer q) = False"
| "supports_prefix_inc (Class_type c) = has_prefix_inc c"

fun supports_equality :: "elem_type \<Rightarrow> bool" where
  "supports_equality (Class_type c) = has_equality c"
| "supports_equality T = True"

fun supports_add_assign :: "elem_type \<Rightarrow> bool" where
  "supports_add_assign (Integral k) = True"
| "supports_add_assign Floating_point = True"
| "supports_add_assign (Pointer Object_pointee) = True"
| "supports_add_assign (Pointer q) = False"
| "supports_add_assign (Class_type c) = has_add_assign c"

definition supports_prefix_dec :: "elem_type \<Rightarrow> bool" where
  "supports_prefix_dec T = (prefix_dec_expr T \<noteq> None)"

text \<open>
  The three overload sets of the traits class have the same shape: a function taking
  \<^verbatim>\<open>void*\<close>, and a function template taking \<^verbatim>\<open>std::nullptr_t\<close> that takes part in
  overload resolution only when its \<^verbatim>\<open>std::enable_if_t\<close> condition holds and its
  signature is well-formed. The call with \<^verbatim>\<open>nullptr\<close> selects the template when it
  takes part (an exact match), the \<^verbatim>\<open>void*\<close> function otherwise; the result is the
  return type of the selected function.
\<close>

definition enable_if :: "bool \<Rightarrow> 'r \<Rightarrow> 'r option" where
  "enable_if cond r = (if cond then Some r else None)"

definition call_with_nullptr :: "'r \<Rightarrow> 'r option \<Rightarrow> 'r" where
  "call_with_nullptr general template = (case template of Some r \<Rightarrow> r | None \<Rightarrow> general)"

datatype diff_type = Integral_difference integral_type | Ptrdiff_t

text \<open>
  \<^verbatim>\<open>static std::ptrdiff_t __diff_type(void*);\<close> and, enabled by
  \<^verbatim>\<open>std::is_integral<_T>::value\<close>, \<^verbatim>\<open>static std::make_signed_t<_T> __diff_type(std::nullptr_t);\<close>
  with \<^verbatim>\<open>typedef decltype(__diff_type(nullptr)) difference_type;\<close>
\<close>

definition difference_type :: "elem_type \<Rightarrow> diff_type" where
  "difference_type T =
     call_with_nullptr Ptrdiff_t
       (case make_signed_t T of
          None \<Rightarrow> None
        | Some k \<Rightarrow> enable_if (is_integral T) (Integral_difference k))"

text \<open>
  \<^verbatim>\<open>static std::false_type __satisfies_rand_access(void*);\<close> and, enabled by
  \<^verbatim>\<open>std::is_integral<_T>::value || std::is_pointer<_T>::value\<close>,
  \<^verbatim>\<open>static std::true_type __satisfies_rand_access(std::nullptr_t);\<close>
\<close>

definition satisfies_rand_access :: "elem_type \<Rightarrow> bool" where
  "satisfies_rand_access T =
     call_with_nullptr False (enable_if (is_integral T \<or> is_pointer T) True)"

text \<open>
  \<^verbatim>\<open>static std::false_type __has_prefix_dec(void*);\<close> and, enabled by
  \<^verbatim>\<open>!std::is_same<decltype(--*(_T*)nullptr), void>::value\<close>,
  \<^verbatim>\<open>static std::true_type __has_prefix_dec(std::nullptr_t);\<close>
\<close>

definition has_prefix_dec :: "elem_type \<Rightarrow> bool" where
  "has_prefix_dec T =
     call_with_nullptr False
       (case prefix_dec_expr T of
          None \<Rightarrow> None
        | Some t \<Rightarrow> enable_if (t \<noteq> Void_type) True)"

datatype iterator_tag =
  Forward_iterator_tag | Bidirectional_iterator_tag | Random_access_iterator_tag

text \<open>
  \<^verbatim>\<open>typedef std::conditional_t<decltype(__satisfies_rand_access(nullptr))::value, std::random_access_iterator_tag,
  std::conditional_t<decltype(__has_prefix_dec(nullptr))::value, std::bidirectional_iterator_tag,
  std::forward_iterator_tag>> iterator_category;\<close>
\<close>

definition iterator_category :: "elem_type \<Rightarrow> iterator_tag" where
  "iterator_category T =
     (if satisfies_rand_access T then Random_access_iterator_tag
      else if has_prefix_dec T then Bidirectional_iterator_tag
      else Forward_iterator_tag)"

text \<open>Whether a difference type is a signed integer type; \<^verbatim>\<open>std::ptrdiff_t\<close> is one.\<close>

fun is_signed_integer :: "diff_type \<Rightarrow> bool" where
  "is_signed_integer (Integral_difference (Signed_int r)) = True"
| "is_signed_integer (Integral_difference k) = False"
| "is_signed_integer Ptrdiff_t = True"

text \<open>
  The deduction as the specification words it, for comparison with \<open>iterator_category\<close>:
  random access when the type supports compound add-assignment and is of a
  numeric-or-address-like category (read as: integral or pointer), otherwise bidirectional
  when it supports prefix decrement, otherwise forward.
\<close>

definition numeric_or_address_like :: "elem_type \<Rightarrow> bool" where
  "numeric_or_address_like T = (is_integral T \<or> is_pointer T)"

definition spec_category :: "elem_type \<Rightarrow> iterator_tag" where
  "spec_category T =
     (if supports_add_assign T \<and> numeric_or_address_like T then Random_access_iterator_tag
      else if supports_prefix_dec T then Bidirectional_iterator_tag
      else Forward_iterator_tag)"

section \<open>value_iterator\<close>

text \<open>
  Integral element types. \<^verbatim>\<open>T\<close> and its difference type \<^verbatim>\<open>std::make_signed_t<T>\<close>
  have the same width, so both are words of that width; arithmetic on the promoted
  operands followed by the conversion back to \<^verbatim>\<open>T\<close> is arithmetic modulo \<open>2 ^ w\<close>.
  Overflow of a signed type, undefined in C++, is modelled as the same wrap-around.
  The flag tells whether \<^verbatim>\<open>T\<close> is signed, which only the ordering depends on.
\<close>

definition integral_operators :: "bool \<Rightarrow> ('w::len word, 'w word) operators" where
  "integral_operators is_signed =
     \<lparr>op_inc = (\<lambda>x. x + 1),
      op_dec = (\<lambda>x. x - 1),
      op_add_assign = (\<lambda>x d. x + d),
      op_sub_assign = (\<lambda>x d. x - d),
      op_minus = (\<lambda>a b. a - b),
      op_less = (\<lambda>a b. if is_signed then word_sless a b else a < b),
      op_eq = (\<lambda>a b. a = b)\<rparr>"

text \<open>
  Object pointer element types. Pointer arithmetic counts elements of the array the
  pointer points into, so a pointer is its element position; the difference of two
  pointers is converted to \<^verbatim>\<open>std::ptrdiff_t\<close>, a signed word.
\<close>

definition pointer_operators :: "(int, 'd::len word) operators" where
  "pointer_operators =
     \<lparr>op_inc = (\<lambda>p. p + 1),
      op_dec = (\<lambda>p. p - 1),
      op_add_assign = (\<lambda>p d. p + sint d),
      op_sub_assign = (\<lambda>p d. p - sint d),
      op_minus = (\<lambda>a b. word_of_int (a - b)),
      op_less = (\<lambda>a b. a < b),
      op_eq = (\<lambda>a b. a = b)\<rparr>"

record 'a value_iterator =
  vi_data :: 'a

text \<open>\<^verbatim>\<open>explicit value_iterator(const T &v) : data(v) {}\<close>\<close>

definition value_iterator_ctor :: "'a \<Rightarrow> 'a value_iterator" where
  "value_iterator_ctor v = \<lparr>vi_data = v\<rparr>"

text \<open>\<^verbatim>\<open>operator*() { return data; }\<close>\<close>

definition value_iterator_deref :: "'a value_iterator \<Rightarrow> 'a" where
  "value_iterator_deref it = vi_data it"

text \<open>\<^verbatim>\<open>operator++() { ++data; return *this; }\<close>\<close>

definition value_iterator_pre_inc :: "('a, 'd) operators \<Rightarrow> 'a value_iterator \<Rightarrow> 'a value_iterator" where
  "value_iterator_pre_inc T it = it\<lparr>vi_data := op_inc T (vi_data it)\<rparr>"

text \<open>\<^verbatim>\<open>operator--() { --data; return *this; }\<close>\<close>

definition value_iterator_pre_dec :: "('a, 'd) operators \<Rightarrow> 'a value_iterator \<Rightarrow> 'a value_iterator" where
  "value_iterator_pre_dec T it = it\<lparr>vi_data := op_dec T (vi_data it)\<rparr>"

text \<open>\<^verbatim>\<open>operator[](difference_type d) { T cpy(data); cpy += d; return cpy; }\<close>\<close>

definition value_iterator_index :: "('a, 'd) operators \<Rightarrow> 'a value_iterator \<Rightarrow> 'd \<Rightarrow> 'a" where
  "value_iterator_index T it d = (let cpy = vi_data it in op_add_assign T cpy d)"

text \<open>\<^verbatim>\<open>operator+=(difference_type d) { data += d; return *this; }\<close>\<close>

definition value_iterator_add_assign ::
  "('a, 'd) operators \<Rightarrow> 'a value_iterator \<Rightarrow> 'd \<Rightarrow> 'a value_iterator" where
  "value_iterator_add_assign T it d = it\<lparr>vi_data := op_add_assign T (vi_data it) d\<rparr>"

text \<open>\<^verbatim>\<open>operator-=(difference_type d) { data -= d; return *this; }\<close>\<close>

definition value_iterator_sub_assign ::
  "('a, 'd) operators \<Rightarrow> 'a value_iterator \<Rightarrow> 'd \<Rightarrow> 'a value_iterator" where
  "value_iterator_sub_assign T it d = it\<lparr>vi_data := op_sub_assign T (vi_data it) d\<rparr>"

text \<open>\<^verbatim>\<open>operator+(const value_iterator &v, difference_type d) { value_iterator cpy(v); cpy += d; return cpy; }\<close>\<close>

definition value_iterator_plus ::
  "('a, 'd) operators \<Rightarrow> 'a value_iterator \<Rightarrow> 'd \<Rightarrow> 'a value_iterator" where
  "value_iterator_plus T v d = (let cpy = value_iterator_ctor (vi_data v) in value_iterator_add_assign T cpy d)"

text \<open>\<^verbatim>\<open>operator-(const value_iterator &v, difference_type d) { value_iterator cpy(v); cpy -= d; return cpy; }\<close>\<close>

definition value_iterator_minus ::
  "('a, 'd) operators \<Rightarrow> 'a value_iterator \<Rightarrow> 'd \<Rightarrow> 'a value_iterator" where
  "value_iterator_minus T v d = (let cpy = value_iterator_ctor (vi_data v) in value_iterator_sub_assign T cpy d)"

text \<open>\<^verbatim>\<open>difference_type operator-(const value_iterator &a, const value_iterator &b) { return a.data - b.data; }\<close>\<close>

definition value_iterator_distance ::
  "('a, 'd) operators \<Rightarrow> 'a value_iterator \<Rightarrow> 'a value_iterator \<Rightarrow> 'd" where
  "value_iterator_distance T a b = op_minus T (vi_data a) (vi_data b)"

text \<open>\<^verbatim>\<open>operator<(a, b) { return a.data < b.data; }\<close> and \<^verbatim>\<open>operator==(a, b) { return a.data == b.data; }\<close>\<close>

definition value_iterator_less :: "('a, 'd) operators \<Rightarrow> 'a value_iterator \<Rightarrow> 'a value_iterator \<Rightarrow> bool" where
  "value_iterator_less T a b = op_less T (vi_data a) (vi_data b)"

definition value_iterator_eq :: "('a, 'd) operators \<Rightarrow> 'a value_iterator \<Rightarrow> 'a value_iterator \<Rightarrow> bool" where
  "value_iterator_eq T a b = op_eq T (vi_data a) (vi_data b)"

text \<open>The operators a \<^verbatim>\<open>value_iterator<T>\<close> offers to a cursor that wraps it.\<close>

definition value_iterator_operators :: "('a, 'd) operators \<Rightarrow> ('a value_iterator, 'd) operators" where
  "value_iterator_operators T =
     \<lparr>op_inc = value_iterator_pre_inc T,
      op_dec = value_iterator_pre_dec T,
      op_add_assign = value_iterator_add_assign T,
      op_sub_assign = value_iterator_sub_assign T,
      op_minus = value_iterator_distance T,
      op_less = value_iterator_less T,
      op_eq = value_iterator_eq T\<rparr>"

section \<open>func_iterator\<close>

text \<open>
  A callable of type \<^verbatim>\<open>F\<close> with signature \<^verbatim>\<open>V()\<close> may keep internal state (a
  mutable lambda with by-value captures). Its \<^verbatim>\<open>operator()\<close> is a function from the
  callable object to the produced value and the callable object afterwards.
  The cache \<^verbatim>\<open>_value\<close> and the stored callable \<^verbatim>\<open>func\<close> are the two members.
\<close>

type_synonym ('f, 'v) callable = "'f \<Rightarrow> 'v \<times> 'f"

record ('f, 'v) func_iterator =
  fi_value :: 'v
  fi_func :: 'f

text \<open>\<^verbatim>\<open>func_iterator(const F &f) : func(f) { new (_value) V(func()); }\<close>\<close>

definition func_iterator_ctor :: "('f, 'v) callable \<Rightarrow> 'f \<Rightarrow> ('f, 'v) func_iterator" where
  "func_iterator_ctor call f =
     (let (v, f') = call f in \<lparr>fi_value = v, fi_func = f'\<rparr>)"

text \<open>\<^verbatim>\<open>func_iterator(const func_iterator &other) : func(other.func) { new (_value) V(other.value()); }\<close>\<close>

definition func_iterator_copy :: "('f, 'v) func_iterator \<Rightarrow> ('f, 'v) func_iterator" where
  "func_iterator_copy other = \<lparr>fi_value = fi_value other, fi_func = fi_func other\<rparr>"

text \<open>
  \<^verbatim>\<open>operator=(const func_iterator &other) { value() = other.value(); func = other.func; return *this; }\<close>.
  The member \<^verbatim>\<open>func\<close> is an \<^verbatim>\<open>assignable_func<F>\<close>: its assignment either assigns the
  callable (\<^verbatim>\<open>func = f\<close>) or, for a callable type without assignment, destroys it and
  copy-constructs the other one in its place (\<^verbatim>\<open>func.~F(); new (&func) F(f);\<close>). Either
  way the stored callable is a copy of the other one afterwards.
\<close>

definition func_iterator_assign ::
  "('f, 'v) func_iterator \<Rightarrow> ('f, 'v) func_iterator \<Rightarrow> ('f, 'v) func_iterator" where
  "func_iterator_assign this other =
     (let this1 = this\<lparr>fi_value := fi_value other\<rparr> in this1\<lparr>fi_func := fi_func other\<rparr>)"

text \<open>\<^verbatim>\<open>operator*() { return value(); }\<close>\<close>

definition func_iterator_deref :: "('f, 'v) func_iterator \<Rightarrow> 'v" where
  "func_iterator_deref it = fi_value it"

text \<open>\<^verbatim>\<open>operator++() { value() = func(); return *this; }\<close>\<close>

definition func_iterator_pre_inc ::
  "('f, 'v) callable \<Rightarrow> ('f, 'v) func_iterator \<Rightarrow> ('f, 'v) func_iterator" where
  "func_iterator_pre_inc call it =
     (let (v, f') = call (fi_func it) in \<lparr>fi_value = v, fi_func = f'\<rparr>)"

text \<open>
  \<^verbatim>\<open>operator++(int) { func_iterator cpy(*this); value() = func(); return cpy; }\<close>:
  the first component is the object afterwards, the second the returned copy.
\<close>

definition func_iterator_post_inc ::
  "('f, 'v) callable \<Rightarrow> ('f, 'v) func_iterator \<Rightarrow> ('f, 'v) func_iterator \<times> ('f, 'v) func_iterator" where
  "func_iterator_post_inc call it =
     (let cpy = func_iterator_copy it in (func_iterator_pre_inc call it, cpy))"

text \<open>
  The outcome of the \<open>(n+1)\<close>-th invocation of a callable that starts in state \<open>f\<close>:
  the value it produces and the callable afterwards.
\<close>

fun invocation :: "('f, 'v) callable \<Rightarrow> 'f \<Rightarrow> nat \<Rightarrow> 'v \<times> 'f" where
  "invocation call f 0 = call f"
| "invocation call f (Suc n) = call (snd (invocation call f n))"

text \<open>
  A callable instrumented with a counter of its invocations: the counter is part of the
  callable object and every call adds one to it.
\<close>

definition counted :: "('f, 'v) callable \<Rightarrow> ('f \<times> nat, 'v) callable" where
  "counted call = (\<lambda>(f, k). let (v, f') = call f in (v, (f', Suc k)))"

text \<open>The generator of the test suite: \<^verbatim>\<open>[n = 0]() mutable { ++n; return n * n; }\<close>.\<close>

definition squares :: "(32 word, 32 word) callable" where
  "squares n = (let n' = n + 1 in (n' * n', n'))"

text \<open>
  Cursor objects live at addresses: \<open>None\<close> is storage holding no cursor. Copy
  construction builds a cursor in free storage from a live one, copy assignment
  overwrites a live cursor from a live one, and an increment changes the cursor at its
  address. Each operation fails (\<open>None\<close>) when an object it needs is not there.
\<close>

type_synonym ('f, 'v) objects = "nat \<Rightarrow> ('f, 'v) func_iterator option"

definition copy_construct_at :: "('f, 'v) objects \<Rightarrow> nat \<Rightarrow> nat \<Rightarrow> ('f, 'v) objects option" where
  "copy_construct_at h dst src =
     (case h src of
        None \<Rightarrow> None
      | Some other \<Rightarrow>
          (case h dst of
             Some this \<Rightarrow> None
           | None \<Rightarrow> Some (h(dst \<mapsto> func_iterator_copy other))))"

definition copy_assign_at :: "('f, 'v) objects \<Rightarrow> nat \<Rightarrow> nat \<Rightarrow> ('f, 'v) objects option" where
  "copy_assign_at h dst src =
     (case h dst of
        None \<Rightarrow> None
      | Some this \<Rightarrow>
          (case h src of
             None \<Rightarrow> None
           | Some other \<Rightarrow> Some (h(dst \<mapsto> func_iterator_assign this other))))"

definition pre_inc_at :: "('f, 'v) callable \<Rightarrow> ('f, 'v) objects \<Rightarrow> nat \<Rightarrow> ('f, 'v) objects option" where
  "pre_inc_at call h p =
     (case h p of
        None \<Rightarrow> None
      | Some it \<Rightarrow> Some (h(p \<mapsto> func_iterator_pre_inc call it)))"

fun pre_inc_times ::
  "('f, 'v) callable \<Rightarrow> nat \<Rightarrow> nat \<Rightarrow> ('f, 'v) objects \<Rightarrow> ('f, 'v) objects option" where
  "pre_inc_times call p 0 h = Some h"
| "pre_inc_times call p (Suc n) h =
     (case pre_inc_at call h p of
        None \<Rightarrow> None
      | Some h' \<Rightarrow> pre_inc_times call p n h')"

text \<open>The cursor at an address after a run of operations; \<open>None\<close> if the run failed.\<close>

definition object_at :: "('f, 'v) objects option \<Rightarrow> nat \<Rightarrow> ('f, 'v) func_iterator option" where
  "object_at r p = (case r of None \<Rightarrow> None | Some h \<Rightarrow> h p)"

section \<open>count_iterator\<close>

text \<open>
  Members \<^verbatim>\<open>iter\<close> and \<^verbatim>\<open>count\<close>. The counter type \<^verbatim>\<open>count_t\<close> is
  \<^verbatim>\<open>std::make_signed_t<std::size_t>\<close>, a signed 64-bit integer on the usual 64-bit
  platforms. The difference type \<open>'d word\<close> is that of the wrapped iterator; adding a
  difference value to the counter converts it to \<^verbatim>\<open>count_t\<close> by its signed value
  (\<open>scast\<close>), and returning a counter difference converts it to the difference type in
  the same way.
\<close>

type_synonym count_t = "64 word"

record 'i count_iterator =
  ci_iter :: 'i
  ci_count :: count_t

text \<open>\<^verbatim>\<open>explicit count_iterator(const Iter &_iter, count_t _count = 0) : iter(_iter), count(_count) {}\<close>\<close>

definition count_iterator_ctor :: "'i \<Rightarrow> count_t \<Rightarrow> 'i count_iterator" where
  "count_iterator_ctor i c = \<lparr>ci_iter = i, ci_count = c\<rparr>"

text \<open>\<^verbatim>\<open>operator*() { return *iter; }\<close>\<close>

definition count_iterator_deref :: "('i \<Rightarrow> 'v) \<Rightarrow> 'i count_iterator \<Rightarrow> 'v" where
  "count_iterator_deref deref c = deref (ci_iter c)"

text \<open>\<^verbatim>\<open>operator++() { ++count; ++iter; return *this; }\<close>\<close>

definition count_iterator_pre_inc :: "('i, 'd) operators \<Rightarrow> 'i count_iterator \<Rightarrow> 'i count_iterator" where
  "count_iterator_pre_inc I c =
     (let c1 = c\<lparr>ci_count := ci_count c + 1\<rparr> in c1\<lparr>ci_iter := op_inc I (ci_iter c1)\<rparr>)"

text \<open>
  \<^verbatim>\<open>operator++(int) { count_iterator cpy(*this); ++*this; return cpy; }\<close>:
  the object afterwards and the returned copy.
\<close>

definition count_iterator_post_inc ::
  "('i, 'd) operators \<Rightarrow> 'i count_iterator \<Rightarrow> 'i count_iterator \<times> 'i count_iterator" where
  "count_iterator_post_inc I c =
     (let cpy = count_iterator_ctor (ci_iter c) (ci_count c) in (count_iterator_pre_inc I c, cpy))"

text \<open>\<^verbatim>\<open>operator--() { --count; --iter; return *this; }\<close>\<close>

definition count_iterator_pre_dec :: "('i, 'd) operators \<Rightarrow> 'i count_iterator \<Rightarrow> 'i count_iterator" where
  "count_iterator_pre_dec I c =
     (let c1 = c\<lparr>ci_count := ci_count c - 1\<rparr> in c1\<lparr>ci_iter := op_dec I (ci_iter c1)\<rparr>)"

text \<open>\<^verbatim>\<open>operator--(int) { count_iterator cpy(*this); --*this; return cpy; }\<close>\<close>

definition count_iterator_post_dec ::
  "('i, 'd) operators \<Rightarrow> 'i count_iterator \<Rightarrow> 'i count_iterator \<times> 'i count_iterator" where
  "count_iterator_post_dec I c =
     (let cpy = count_iterator_ctor (ci_iter c) (ci_count c) in (count_iterator_pre_dec I c, cpy))"

text \<open>\<^verbatim>\<open>operator+=(difference_type d) { count += d; iter += d; return *this; }\<close>\<close>

definition count_iterator_add_assign ::
  "('i, 'd::len word) operators \<Rightarrow> 'i count_iterator \<Rightarrow> 'd word \<Rightarrow> 'i count_iterator" where
  "count_iterator_add_assign I c d =
     (let c1 = c\<lparr>ci_count := ci_count c + scast d\<rparr> in c1\<lparr>ci_iter := op_add_assign I (ci_iter c1) d\<rparr>)"

text \<open>\<^verbatim>\<open>operator-=(difference_type d) { count -= d; iter -= d; return *this; }\<close>\<close>

definition count_iterator_sub_assign ::
  "('i, 'd::len word) operators \<Rightarrow> 'i count_iterator \<Rightarrow> 'd word \<Rightarrow> 'i count_iterator" where
  "count_iterator_sub_assign I c d =
     (let c1 = c\<lparr>ci_count := ci_count c - scast d\<rparr> in c1\<lparr>ci_iter := op_sub_assign I (ci_iter c1) d\<rparr>)"

text \<open>\<^verbatim>\<open>operator+(const count_iterator &v, difference_type d) { count_iterator cpy(v); cpy += d; return cpy; }\<close>\<close>

definition count_iterator_plus ::
  "('i, 'd::len word) operators \<Rightarrow> 'i count_iterator \<Rightarrow> 'd word \<Rightarrow> 'i count_iterator" where
  "count_iterator_plus I v d =
     (let cpy = count_iterator_ctor (ci_iter v) (ci_count v) in count_iterator_add_assign I cpy d)"

text \<open>\<^verbatim>\<open>operator-(const count_iterator &v, difference_type d) { count_iterator cpy(v); cpy -= d; return cpy; }\<close>\<close>

definition count_iterator_minus ::
  "('i, 'd::len word) operators \<Rightarrow> 'i count_iterator \<Rightarrow> 'd word \<Rightarrow> 'i count_iterator" where
  "count_iterator_minus I v d =
     (let cpy = count_iterator_ctor (ci_iter v) (ci_count v) in count_iterator_sub_assign I cpy d)"

text \<open>\<^verbatim>\<open>difference_type operator-(const count_iterator &a, const count_iterator &b) { return a.count - b.count; }\<close>\<close>

definition count_iterator_distance :: "'i count_iterator \<Rightarrow> 'i count_iterator \<Rightarrow> 'd::len word" where
  "count_iterator_distance a b = scast (ci_count a - ci_count b)"

text \<open>\<^verbatim>\<open>operator<\<close>, \<^verbatim>\<open>operator<=\<close>, \<^verbatim>\<open>operator>\<close>, \<^verbatim>\<open>operator>=\<close>: the same comparison of \<^verbatim>\<open>a.count\<close> with \<^verbatim>\<open>b.count\<close>.\<close>

definition count_iterator_less :: "'i count_iterator \<Rightarrow> 'i count_iterator \<Rightarrow> bool" where
  "count_iterator_less a b = word_sless (ci_count a) (ci_count b)"

definition count_iterator_less_eq :: "'i count_iterator \<Rightarrow> 'i count_iterator \<Rightarrow> bool" where
  "count_iterator_less_eq a b = word_sle (ci_count a) (ci_count b)"

definition count_iterator_greater :: "'i count_iterator \<Rightarrow> 'i count_iterator \<Rightarrow> bool" where
  "count_iterator_greater a b = word_sless (ci_count b) (ci_count a)"

definition count_iterator_greater_eq :: "'i count_iterator \<Rightarrow> 'i count_iterator \<Rightarrow> bool" where
  "count_iterator_greater_eq a b = word_sle (ci_count b) (ci_count a)"

text \<open>\<^verbatim>\<open>operator==(a, b) { return a.count == b.count; }\<close> and \<^verbatim>\<open>operator!=(a, b) { return a.count != b.count; }\<close>\<close>

definition count_iterator_eq :: "'i count_iterator \<Rightarrow> 'i count_iterator \<Rightarrow> bool" where
  "count_iterator_eq a b = (ci_count a = ci_count b)"

definition count_iterator_neq :: "'i count_iterator \<Rightarrow> 'i count_iterator \<Rightarrow> bool" where
  "count_iterator_neq a b = (ci_count a \<noteq> ci_count b)"

text \<open>
  The positional operations of a cursor, as data, so that sequences of them can be run:
  on a counting cursor, and on the wrapped iterator alone. For the postfix forms and the
  binary \<^verbatim>\<open>+\<close> and \<^verbatim>\<open>-\<close> the run continues with the cursor the operation leaves
  (the object itself, respectively the returned cursor).
\<close>

datatype 'd positional =
  Pre_inc | Post_inc | Pre_dec | Post_dec
  | Add_assign 'd | Sub_assign 'd | Plus 'd | Minus 'd

fun count_iterator_apply ::
  "('i, 'd::len word) operators \<Rightarrow> 'i count_iterator \<Rightarrow> 'd word positional \<Rightarrow> 'i count_iterator" where
  "count_iterator_apply I c Pre_inc = count_iterator_pre_inc I c"
| "count_iterator_apply I c Post_inc = fst (count_iterator_post_inc I c)"
| "count_iterator_apply I c Pre_dec = count_iterator_pre_dec I c"
| "count_iterator_apply I c Post_dec = fst (count_iterator_post_dec I c)"
| "count_iterator_apply I c (Add_assign d) = count_iterator_add_assign I c d"
| "count_iterator_apply I c (Sub_assign d) = count_iterator_sub_assign I c d"
| "count_iterator_apply I c (Plus d) = count_iterator_plus I c d"
| "count_iterator_apply I c (Minus d) = count_iterator_minus I c d"

text \<open>What the same operation does to the wrapped iterator, by the iterator's own operators.\<close>

fun inner_apply :: "('i, 'd) operators \<Rightarrow> 'i \<Rightarrow> 'd positional \<Rightarrow> 'i" where
  "inner_apply I i Pre_inc = op_inc I i"
| "inner_apply I i Post_inc = op_inc I i"
| "inner_apply I i Pre_dec = op_dec I i"
| "inner_apply I i Post_dec = op_dec I i"
| "inner_apply I i (Add_assign d) = op_add_assign I i d"
| "inner_apply I i (Sub_assign d) = op_sub_assign I i d"
| "inner_apply I i (Plus d) = op_add_assign I i d"
| "inner_apply I i (Minus d) = op_sub_assign I i d"

text \<open>The signed number of steps an operation advances by.\<close>

fun advance :: "'d::len word positional \<Rightarrow> int" where
  "advance Pre_inc = 1"
| "advance Post_inc = 1"
| "advance Pre_dec = - 1"
| "advance Post_dec = - 1"
| "advance (Add_assign d) = sint d"
| "advance (Sub_assign d) = - sint d"
| "advance (Plus d) = sint d"
| "advance (Minus d) = - sint d"

section \<open>mapping_iterator\<close>

text \<open>
  Members \<^verbatim>\<open>iter\<close>, \<^verbatim>\<open>func\<close> and the scratch slot \<^verbatim>\<open>temp_mapped_value\<close> of type
  \<^verbatim>\<open>value_t\<close>, the decayed result type of \<^verbatim>\<open>func\<close>. The transform is a pure
  function. Dereferencing the stored iterator is the operation \<open>deref\<close> of the wrapped
  iterator type, passed to each access.
\<close>

record ('i, 'v, 'w) mapping_iterator =
  mi_iter :: 'i
  mi_func :: "'v \<Rightarrow> 'w"
  mi_temp_mapped_value :: 'w

text \<open>
  \<^verbatim>\<open>mapping_iterator(Iter _iter, const F &_func) : iter(std::move(_iter)), func(std::move(_func)) {}\<close>:
  the scratch slot is default-initialised; \<open>dflt\<close> is that initial content.
\<close>

definition mapping_iterator_ctor :: "'i \<Rightarrow> ('v \<Rightarrow> 'w) \<Rightarrow> 'w \<Rightarrow> ('i, 'v, 'w) mapping_iterator" where
  "mapping_iterator_ctor i f dflt = \<lparr>mi_iter = i, mi_func = f, mi_temp_mapped_value = dflt\<rparr>"

text \<open>\<^verbatim>\<open>operator*() { return func(*iter); }\<close>\<close>

definition mapping_iterator_deref :: "('i \<Rightarrow> 'v) \<Rightarrow> ('i, 'v, 'w) mapping_iterator \<Rightarrow> 'w" where
  "mapping_iterator_deref deref m = mi_func m (deref (mi_iter m))"

text \<open>
  \<^verbatim>\<open>operator->() { temp_mapped_value = *iter; return std::addressof(temp_mapped_value); }\<close>:
  the assignment converts \<^verbatim>\<open>*iter\<close> implicitly to \<^verbatim>\<open>value_t\<close> (\<open>conv\<close>; the identity
  when both types agree). The result is the cursor afterwards; the returned address is
  always that of its slot \<open>mi_temp_mapped_value\<close>, whose content \<open>arrow_pointee\<close> reads.
\<close>

definition mapping_iterator_arrow ::
  "('i \<Rightarrow> 'v) \<Rightarrow> ('v \<Rightarrow> 'w) \<Rightarrow> ('i, 'v, 'w) mapping_iterator \<Rightarrow> ('i, 'v, 'w) mapping_iterator" where
  "mapping_iterator_arrow deref conv m = m\<lparr>mi_temp_mapped_value := conv (deref (mi_iter m))\<rparr>"

definition arrow_pointee :: "('i, 'v, 'w) mapping_iterator \<Rightarrow> 'w" where
  "arrow_pointee m = mi_temp_mapped_value m"

text \<open>\<^verbatim>\<open>operator++() { ++iter; return *this; }\<close>\<close>

definition mapping_iterator_pre_inc ::
  "('i, 'd) operators \<Rightarrow> ('i, 'v, 'w) mapping_iterator \<Rightarrow> ('i, 'v, 'w) mapping_iterator" where
  "mapping_iterator_pre_inc I m = m\<lparr>mi_iter := op_inc I (mi_iter m)\<rparr>"

text \<open>
  A wrapped iterator that points into caller-owned storage (\<^verbatim>\<open>std::vector<int>::iterator\<close>
  in the test suite): the iterator is a position, the storage maps positions to elements,
  and \<^verbatim>\<open>*it\<close> reads the storage as it is at the time of the access.
\<close>

type_synonym 'v storage = "nat \<Rightarrow> 'v"

definition storage_deref :: "'v storage \<Rightarrow> nat \<Rightarrow> 'v" where
  "storage_deref s p = s p"

text \<open>\<^verbatim>\<open>*it = v\<close> through another iterator at position \<open>p\<close>.\<close>

definition storage_write :: "'v storage \<Rightarrow> nat \<Rightarrow> 'v \<Rightarrow> 'v storage" where
  "storage_write s p v = s(p := v)"

section \<open>The capability-gated interface\<close>

text \<open>
  The cursor types of the library, and the iterator category each one declares:
  \<^verbatim>\<open>value_iterator<T>\<close> takes it from \<^verbatim>\<open>value_iterator_traits<T>\<close>, both function
  cursors declare \<^verbatim>\<open>std::forward_iterator_tag\<close>, and \<^verbatim>\<open>count_iterator<Iter>\<close> and
  \<^verbatim>\<open>mapping_iterator<Iter, F>\<close> take \<^verbatim>\<open>std::iterator_traits<Iter>::iterator_category\<close>.
\<close>

datatype cursor_type =
  Value_iterator elem_type
  | Func_iterator
  | Unary_func_iterator
  | Count_iterator cursor_type
  | Mapping_iterator cursor_type

fun cursor_category :: "cursor_type \<Rightarrow> iterator_tag" where
  "cursor_category (Value_iterator T) = iterator_category T"
| "cursor_category Func_iterator = Forward_iterator_tag"
| "cursor_category Unary_func_iterator = Forward_iterator_tag"
| "cursor_category (Count_iterator c) = cursor_category c"
| "cursor_category (Mapping_iterator c) = cursor_category c"

text \<open>
  \<^verbatim>\<open>static constexpr bool rand_access = std::is_same<iterator_category, std::random_access_iterator_tag>::value;\<close>
  and
  \<^verbatim>\<open>static constexpr bool bidirectional = rand_access || std::is_same<iterator_category, std::bidirectional_iterator_tag>::value;\<close>,
  the same in all three class templates that have them.
\<close>

definition rand_access :: "iterator_tag \<Rightarrow> bool" where
  "rand_access cat = (cat = Random_access_iterator_tag)"

definition bidirectional :: "iterator_tag \<Rightarrow> bool" where
  "bidirectional cat = (rand_access cat \<or> cat = Bidirectional_iterator_tag)"

datatype operation =
  Op_deref | Op_arrow | Op_pre_inc | Op_post_inc | Op_eq | Op_neq
  | Op_pre_dec | Op_post_dec
  | Op_index | Op_add_assign | Op_sub_assign | Op_plus | Op_minus | Op_distance
  | Op_less | Op_less_eq | Op_greater | Op_greater_eq

text \<open>
  The \<^verbatim>\<open>std::enable_if_t\<close> condition on each operator of \<^verbatim>\<open>value_iterator\<close>,
  \<^verbatim>\<open>count_iterator\<close> and \<^verbatim>\<open>mapping_iterator\<close>: the decrements are templates enabled
  by \<^verbatim>\<open>bidirectional\<close>, the operators of the random access section by
  \<^verbatim>\<open>rand_access\<close>, the others are plain members.
\<close>

fun enabled :: "iterator_tag \<Rightarrow> operation \<Rightarrow> bool" where
  "enabled cat Op_deref = True"
| "enabled cat Op_arrow = True"
| "enabled cat Op_pre_inc = True"
| "enabled cat Op_post_inc = True"
| "enabled cat Op_eq = True"
| "enabled cat Op_neq = True"
| "enabled cat Op_pre_dec = bidirectional cat"
| "enabled cat Op_post_dec = bidirectional cat"
| "enabled cat p = rand_access cat"

text \<open>
  The operators \<^verbatim>\<open>func_iterator\<close> and \<^verbatim>\<open>unary_func_iterator\<close> declare: dereference,
  arrow, the two increments and the two equality comparisons, nothing else.
\<close>

fun forward_only :: "operation \<Rightarrow> bool" where
  "forward_only Op_deref = True"
| "forward_only Op_arrow = True"
| "forward_only Op_pre_inc = True"
| "forward_only Op_post_inc = True"
| "forward_only Op_eq = True"
| "forward_only Op_neq = True"
| "forward_only p = False"

text \<open>Whether a cursor type has a usable operator for an operation.\<close>

fun exposes :: "cursor_type \<Rightarrow> operation \<Rightarrow> bool" where
  "exposes (Value_iterator T) p = enabled (iterator_category T) p"
| "exposes Func_iterator p = forward_only p"
| "exposes Unary_func_iterator p = forward_only p"
| "exposes (Count_iterator c) p = enabled (cursor_category c) p"
| "exposes (Mapping_iterator c) p = enabled (cursor_category c) p"

text \<open>
  A call of an operator that the cursor type does not expose finds no viable function and
  the program is ill-formed; otherwise the call compiles. No operator of the library
  throws or aborts.
\<close>

datatype call_outcome = Compile_error | Compiles

definition resolve_call :: "cursor_type \<Rightarrow> operation \<Rightarrow> call_outcome" where
  "resolve_call c p = (if exposes c p then Compiles else Compile_error)"

text \<open>The capability tier an operation belongs to, and the order of the tiers.\<close>

fun required_category :: "operation \<Rightarrow> iterator_tag" where
  "required_category Op_deref = Forward_iterator_tag"
| "required_category Op_arrow = Forward_iterator_tag"
| "required_category Op_pre_inc = Forward_iterator_tag"
| "required_category Op_post_inc = Forward_iterator_tag"
| "required_category Op_eq = Forward_iterator_tag"
| "required_category Op_neq = Forward_iterator_tag"
| "required_category Op_pre_dec = Bidirectional_iterator_tag"
| "required_category Op_post_dec = Bidirectional_iterator_tag"
| "required_category p = Random_access_iterator_tag"

fun tier :: "iterator_tag \<Rightarrow> nat" where
  "tier Forward_iterator_tag = 0"
| "tier Bidirectional_iterator_tag = 1"
| "tier Random_access_iterator_tag = 2"

section \<open>Properties of func_iterator\<close>

lemma func_iterator_pre_inc_funpow:
  "(func_iterator_pre_inc call ^^ n) (func_iterator_ctor call f) =
     \<lparr>fi_value = fst (invocation call f n), fi_func = snd (invocation call f n)\<rparr>"
proof (induction n)
  case 0
  show ?case
    by (simp add: func_iterator_ctor_def split: prod.split)
next
  case (Suc n)
  then show ?case
    by (simp add: func_iterator_pre_inc_def split: prod.split)
qed

lemma invocation_counted:
  "invocation (counted call) (f, k) n =
     (fst (invocation call f n), (snd (invocation call f n), k + Suc n))"
  by (induction n) (simp_all add: counted_def split: prod.split)

text \<open>
  C2. Constructing a pull-variant function cursor from a callable in state \<open>f\<close> leaves the
  first produced value in the cache and the callable after one invocation; after \<open>n\<close>
  increments dereference returns the \<open>(n+1)\<close>-th produced value and the callable has been
  invoked \<open>n+1\<close> times in all, as the invocation counter of an instrumented callable shows.
  The postfix increment leaves the cursor as the prefix increment does and returns the
  cursor as it was.
\<close>

theorem func_iterator_nth_value:
  "func_iterator_deref (func_iterator_ctor call f) = fst (call f)
   \<and> fi_func (func_iterator_ctor call f) = snd (call f)
   \<and> func_iterator_deref ((func_iterator_pre_inc call ^^ n) (func_iterator_ctor call f))
       = fst (invocation call f n)
   \<and> fi_func ((func_iterator_pre_inc call ^^ n) (func_iterator_ctor call f))
       = snd (invocation call f n)
   \<and> snd (fi_func (func_iterator_ctor (counted call) (f, 0))) = 1
   \<and> snd (fi_func ((func_iterator_pre_inc (counted call) ^^ n)
                      (func_iterator_ctor (counted call) (f, 0)))) = n + 1
   \<and> func_iterator_post_inc call it = (func_iterator_pre_inc call it, it)"
  using invocation_counted [of call f 0 0] invocation_counted [of call f 0 n]
  by (simp add: func_iterator_pre_inc_funpow func_iterator_deref_def
      func_iterator_post_inc_def func_iterator_copy_def)
    (simp add: func_iterator_ctor_def counted_def split: prod.split)

section \<open>Properties of mapping_iterator\<close>

text \<open>
  C7. Dereferencing a mapping cursor applies the transform to what the wrapped cursor
  yields at the time of the access and leaves the scratch slot alone, so nothing is cached:
  for a wrapped cursor at position \<open>p\<close> of caller-owned storage, after the element at \<open>p\<close>
  has been overwritten with \<open>v\<close> between two dereferences, the second dereference returns
  the transform of \<open>v\<close>; an arrow access in between changes nothing about that.
\<close>

theorem mapping_iterator_deref_fresh:
  "mapping_iterator_deref deref m = mi_func m (deref (mi_iter m))
   \<and> mapping_iterator_deref (storage_deref (storage_write s (mi_iter m) v)) m = mi_func m v
   \<and> mapping_iterator_deref (storage_deref (storage_write s (mi_iter m) v))
        (mapping_iterator_arrow (storage_deref s) conv m) = mi_func m v"
  by (simp add: mapping_iterator_deref_def mapping_iterator_arrow_def storage_deref_def
      storage_write_def)

text \<open>
  C1 (evaluation of the code). The arrow access of a mapping cursor over
  \<^verbatim>\<open>value_iterator<int>(3)\<close> with the transform \<^verbatim>\<open>[](int v) { return v * v; }\<close> leaves 3
  in the scratch slot, whereas dereferencing the same cursor yields 9: the arrow access stores
  the wrapped cursor's value without applying the transform.
\<close>

theorem mapping_iterator_arrow_skips_func:
  "arrow_pointee (mapping_iterator_arrow value_iterator_deref (\<lambda>v. v)
      (mapping_iterator_ctor (value_iterator_ctor (3 :: 32 word)) (\<lambda>v. v * v) 0)) = 3
   \<and> mapping_iterator_deref value_iterator_deref
      (mapping_iterator_arrow value_iterator_deref (\<lambda>v. v)
         (mapping_iterator_ctor (value_iterator_ctor (3 :: 32 word)) (\<lambda>v. v * v) 0)) = 9"
  by (simp add: arrow_pointee_def mapping_iterator_arrow_def mapping_iterator_ctor_def
      mapping_iterator_deref_def value_iterator_deref_def value_iterator_ctor_def)

section \<open>Properties of count_iterator\<close>

lemma count_iterator_apply_iter:
  "ci_iter (count_iterator_apply I c p) = inner_apply I (ci_iter c) p"
  by (cases p) (simp_all add: count_iterator_pre_inc_def count_iterator_post_inc_def
      count_iterator_pre_dec_def count_iterator_post_dec_def count_iterator_add_assign_def
      count_iterator_sub_assign_def count_iterator_plus_def count_iterator_minus_def
      count_iterator_ctor_def Let_def)

lemma count_iterator_apply_count:
  "ci_count (count_iterator_apply I c p) = ci_count c + word_of_int (advance p)"
  by (cases p) (simp_all add: count_iterator_pre_inc_def count_iterator_post_inc_def
      count_iterator_pre_dec_def count_iterator_post_dec_def count_iterator_add_assign_def
      count_iterator_sub_assign_def count_iterator_plus_def count_iterator_minus_def
      count_iterator_ctor_def Let_def)

lemma foldl_count_iterator_apply_iter:
  "ci_iter (foldl (count_iterator_apply I) c ps) = foldl (inner_apply I) (ci_iter c) ps"
  by (induction ps arbitrary: c) (simp_all add: count_iterator_apply_iter)

lemma foldl_count_iterator_apply_count:
  "ci_count (foldl (count_iterator_apply I) c ps)
     = ci_count c + word_of_int (sum_list (map advance ps))"
  by (induction ps arbitrary: c) (simp_all add: count_iterator_apply_count)

lemma integral_inner_apply:
  "vi_data (inner_apply (value_iterator_operators (integral_operators sg)) v p)
     = vi_data v + word_of_int (advance p)"
  by (cases p) (simp_all add: value_iterator_operators_def integral_operators_def
      value_iterator_pre_inc_def value_iterator_pre_dec_def value_iterator_add_assign_def
      value_iterator_sub_assign_def)

lemma pointer_inner_apply:
  "vi_data (inner_apply (value_iterator_operators pointer_operators) v p)
     = vi_data v + advance p"
  by (cases p) (simp_all add: value_iterator_operators_def pointer_operators_def
      value_iterator_pre_inc_def value_iterator_pre_dec_def value_iterator_add_assign_def
      value_iterator_sub_assign_def)

lemma foldl_integral_inner_apply:
  "vi_data (foldl (inner_apply (value_iterator_operators (integral_operators sg))) v ps)
     = vi_data v + word_of_int (sum_list (map advance ps))"
  by (induction ps arbitrary: v) (simp_all add: integral_inner_apply)

lemma foldl_pointer_inner_apply:
  "vi_data (foldl (inner_apply (value_iterator_operators pointer_operators)) v ps)
     = vi_data v + sum_list (map advance ps)"
  by (induction ps arbitrary: v) (simp_all add: pointer_inner_apply)

text \<open>
  C6. Every positional operation of a counting cursor does to the wrapped iterator exactly
  what the iterator's own operation of the same kind does, and moves the counter by the
  signed number of steps of that operation. Hence after any sequence of positional
  operations, from any starting state, the wrapped iterator is where the same sequence
  alone takes it, and the counter has changed by the net advance of the sequence; for a
  wrapped value cursor over an integral or pointer type the stored value has moved by
  that same net advance (in the arithmetic of its type).
\<close>

theorem count_iterator_lockstep:
  "ci_iter (count_iterator_apply I c p) = inner_apply I (ci_iter c) p
   \<and> ci_count (count_iterator_apply I c p) = ci_count c + word_of_int (advance p)
   \<and> ci_iter (foldl (count_iterator_apply I) c ps) = foldl (inner_apply I) (ci_iter c) ps
   \<and> ci_count (foldl (count_iterator_apply I) c ps)
        = ci_count c + word_of_int (sum_list (map advance ps))
   \<and> vi_data (foldl (inner_apply (value_iterator_operators (integral_operators sg))) v qs)
        = vi_data v + word_of_int (sum_list (map advance qs))
   \<and> vi_data (foldl (inner_apply (value_iterator_operators pointer_operators)) w rs)
        = vi_data w + sum_list (map advance rs)"
  by (simp only: count_iterator_apply_iter count_iterator_apply_count
      foldl_count_iterator_apply_iter foldl_count_iterator_apply_count
      foldl_integral_inner_apply foldl_pointer_inner_apply simp_thms)

lemma sint_word_of_int_in_range:
  "- (2 ^ (LENGTH('a::len) - 1)) \<le> x \<Longrightarrow> x < 2 ^ (LENGTH('a) - 1)
     \<Longrightarrow> sint (word_of_int x :: 'a word) = x"
  by (simp add: sint_sbintrunc' signed_take_bit_int_eq_self)

lemma count_iterator_distance_exact:
  fixes a b :: "'i count_iterator"
  assumes len: "LENGTH('d::len) \<le> 64"
    and lo: "- (2 ^ (LENGTH('d) - 1)) \<le> sint (ci_count a) - sint (ci_count b)"
    and hi: "sint (ci_count a) - sint (ci_count b) < 2 ^ (LENGTH('d) - 1)"
  shows "sint (count_iterator_distance a b :: 'd word) = sint (ci_count a) - sint (ci_count b)"
proof -
  let ?D = "sint (ci_count a) - sint (ci_count b)"
  have pow: "(2 :: int) ^ (LENGTH('d) - 1) \<le> 2 ^ (LENGTH(64) - 1)"
    using len by (intro power_increasing) simp_all
  have x: "ci_count a - ci_count b = word_of_int ?D"
    by simp
  have "sint (word_of_int ?D :: 64 word) = ?D"
    using lo hi pow by (intro sint_word_of_int_in_range) linarith+
  then have s64: "sint (ci_count a - ci_count b) = ?D"
    by (simp only: x)
  have "(count_iterator_distance a b :: 'd word) = word_of_int (sint (ci_count a - ci_count b))"
    unfolding count_iterator_distance_def by simp
  then have "(count_iterator_distance a b :: 'd word) = word_of_int ?D"
    by (simp only: s64)
  then show ?thesis
    using lo hi by (simp only: sint_word_of_int_in_range)
qed

text \<open>
  C5 (counterexample). For counting cursors over \<^verbatim>\<open>value_iterator<signed char>\<close>, whose
  difference type is \<^verbatim>\<open>signed char\<close>, at counts 200 and 0: the counts differ by 200,
  the distance returned is \<open>-56\<close>.
\<close>

theorem count_iterator_distance_narrowed:
  "sint (ci_count (count_iterator_ctor (value_iterator_ctor (0 :: 8 word)) 200))
     - sint (ci_count (count_iterator_ctor (value_iterator_ctor (0 :: 8 word)) 0)) = 200
   \<and> sint (count_iterator_distance
        (count_iterator_ctor (value_iterator_ctor (0 :: 8 word)) 200)
        (count_iterator_ctor (value_iterator_ctor (0 :: 8 word)) 0) :: 8 word) = - 56"
  by (simp add: count_iterator_distance_def count_iterator_ctor_def)

text \<open>
  C5 (amended). Equality, inequality and the four relational comparisons of two counting
  cursors are the corresponding comparisons of their signed counts, and their distance is
  the difference of their counts converted to the difference type; it is the exact
  difference whenever that is representable in the difference type. None of the results
  changes when the wrapped iterators are replaced by any others. Two counting cursors over
  different wrapped iterators at the same count are equal, and two over the same wrapped
  iterator at different counts are unequal.
\<close>

theorem count_iterator_compare_by_count:
  fixes a b :: "'i count_iterator" and i j :: 'i and k l :: count_t
  shows
  "count_iterator_eq a b = (ci_count a = ci_count b)
   \<and> count_iterator_neq a b = (ci_count a \<noteq> ci_count b)
   \<and> count_iterator_less a b = (sint (ci_count a) < sint (ci_count b))
   \<and> count_iterator_less_eq a b = (sint (ci_count a) \<le> sint (ci_count b))
   \<and> count_iterator_greater a b = (sint (ci_count a) > sint (ci_count b))
   \<and> count_iterator_greater_eq a b = (sint (ci_count a) \<ge> sint (ci_count b))
   \<and> (count_iterator_distance a b :: 'd::len word) = scast (ci_count a - ci_count b)
   \<and> (LENGTH('d) \<le> 64
        \<and> - (2 ^ (LENGTH('d) - 1)) \<le> sint (ci_count a) - sint (ci_count b)
        \<and> sint (ci_count a) - sint (ci_count b) < 2 ^ (LENGTH('d) - 1)
      \<longrightarrow> sint (count_iterator_distance a b :: 'd word) = sint (ci_count a) - sint (ci_count b))
   \<and> count_iterator_eq (a\<lparr>ci_iter := i\<rparr>) (b\<lparr>ci_iter := j\<rparr>) = count_iterator_eq a b
   \<and> count_iterator_neq (a\<lparr>ci_iter := i\<rparr>) (b\<lparr>ci_iter := j\<rparr>) = count_iterator_neq a b
   \<and> count_iterator_less (a\<lparr>ci_iter := i\<rparr>) (b\<lparr>ci_iter := j\<rparr>) = count_iterator_less a b
   \<and> count_iterator_less_eq (a\<lparr>ci_iter := i\<rparr>) (b\<lparr>ci_iter := j\<rparr>) = count_iterator_less_eq a b
   \<and> count_iterator_greater (a\<lparr>ci_iter := i\<rparr>) (b\<lparr>ci_iter := j\<rparr>) = count_iterator_greater a b
   \<and> count_iterator_greater_eq (a\<lparr>ci_iter := i\<rparr>) (b\<lparr>ci_iter := j\<rparr>)
        = count_iterator_greater_eq a b
   \<and> (count_iterator_distance (a\<lparr>ci_iter := i\<rparr>) (b\<lparr>ci_iter := j\<rparr>) :: 'd word)
        = count_iterator_distance a b
   \<and> count_iterator_eq (count_iterator_ctor i k) (count_iterator_ctor j k)
   \<and> (k \<noteq> l \<longrightarrow> \<not> count_iterator_eq (count_iterator_ctor i k) (count_iterator_ctor i l))"
proof -
  have exact: "LENGTH('d) \<le> 64
        \<and> - (2 ^ (LENGTH('d) - 1)) \<le> sint (ci_count a) - sint (ci_count b)
        \<and> sint (ci_count a) - sint (ci_count b) < 2 ^ (LENGTH('d) - 1)
      \<longrightarrow> sint (count_iterator_distance a b :: 'd word) = sint (ci_count a) - sint (ci_count b)"
    using count_iterator_distance_exact [of a b, where 'd = 'd] by blast
  have rest: "count_iterator_eq a b = (ci_count a = ci_count b)
   \<and> count_iterator_neq a b = (ci_count a \<noteq> ci_count b)
   \<and> count_iterator_less a b = (sint (ci_count a) < sint (ci_count b))
   \<and> count_iterator_less_eq a b = (sint (ci_count a) \<le> sint (ci_count b))
   \<and> count_iterator_greater a b = (sint (ci_count a) > sint (ci_count b))
   \<and> count_iterator_greater_eq a b = (sint (ci_count a) \<ge> sint (ci_count b))
   \<and> (count_iterator_distance a b :: 'd::len word) = scast (ci_count a - ci_count b)"
    by (simp add: count_iterator_eq_def count_iterator_neq_def count_iterator_less_def
        count_iterator_less_eq_def count_iterator_greater_def count_iterator_greater_eq_def
        count_iterator_distance_def word_sless_alt word_sle_eq)
  have indep: "count_iterator_eq (a\<lparr>ci_iter := i\<rparr>) (b\<lparr>ci_iter := j\<rparr>) = count_iterator_eq a b
   \<and> count_iterator_neq (a\<lparr>ci_iter := i\<rparr>) (b\<lparr>ci_iter := j\<rparr>) = count_iterator_neq a b
   \<and> count_iterator_less (a\<lparr>ci_iter := i\<rparr>) (b\<lparr>ci_iter := j\<rparr>) = count_iterator_less a b
   \<and> count_iterator_less_eq (a\<lparr>ci_iter := i\<rparr>) (b\<lparr>ci_iter := j\<rparr>) = count_iterator_less_eq a b
   \<and> count_iterator_greater (a\<lparr>ci_iter := i\<rparr>) (b\<lparr>ci_iter := j\<rparr>) = count_iterator_greater a b
   \<and> count_iterator_greater_eq (a\<lparr>ci_iter := i\<rparr>) (b\<lparr>ci_iter := j\<rparr>)
        = count_iterator_greater_eq a b
   \<and> (count_iterator_distance (a\<lparr>ci_iter := i\<rparr>) (b\<lparr>ci_iter := j\<rparr>) :: 'd word)
        = count_iterator_distance a b"
    by (simp add: count_iterator_eq_def count_iterator_neq_def count_iterator_less_def
        count_iterator_less_eq_def count_iterator_greater_def count_iterator_greater_eq_def
        count_iterator_distance_def)
  have ctor: "count_iterator_eq (count_iterator_ctor i k) (count_iterator_ctor j k)
   \<and> (k \<noteq> l \<longrightarrow> \<not> count_iterator_eq (count_iterator_ctor i k) (count_iterator_ctor i l))"
    by (simp add: count_iterator_eq_def count_iterator_ctor_def)
  from rest exact indep ctor show ?thesis
    by blast
qed

theorem count_iterator_compare_by_count_witness:
  "LENGTH(8) \<le> (64 :: nat)
   \<and> (3 :: count_t) \<noteq> 5
   \<and> sint (count_iterator_distance
        (count_iterator_ctor (value_iterator_ctor (7 :: 8 word)) 5)
        (count_iterator_ctor (value_iterator_ctor (9 :: 8 word)) 3) :: 8 word) = 2
   \<and> \<not> count_iterator_eq
        (count_iterator_ctor (value_iterator_ctor (7 :: 8 word)) 3)
        (count_iterator_ctor (value_iterator_ctor (7 :: 8 word)) 5)
   \<and> count_iterator_eq
        (count_iterator_ctor (value_iterator_ctor (7 :: 8 word)) 3)
        (count_iterator_ctor (value_iterator_ctor (9 :: 8 word)) 3)"
  using count_iterator_compare_by_count
    [of "count_iterator_ctor (value_iterator_ctor (7 :: 8 word)) 5"
        "count_iterator_ctor (value_iterator_ctor (9 :: 8 word)) 3"
        "value_iterator_ctor (7 :: 8 word)" "value_iterator_ctor (9 :: 8 word)" 3 5,
     where 'd = 8]
  by (simp add: count_iterator_ctor_def)

section \<open>Properties of value_iterator\<close>

text \<open>
  C8. For a value cursor over an integral type and over a pointer type: the distance from a
  cursor to the cursor offset from it by \<open>d\<close> is exactly \<open>d\<close>, for every difference value
  \<open>d\<close>; and, whatever the operators of the element type, indexed access at \<open>d\<close> yields
  what dereferencing the cursor offset by \<open>d\<close> yields.
\<close>

theorem value_iterator_offset_distance:
  "value_iterator_distance (integral_operators sg)
      (value_iterator_plus (integral_operators sg) v d) (value_iterator_ctor (vi_data v)) = d
   \<and> value_iterator_distance pointer_operators
      (value_iterator_plus pointer_operators p e) (value_iterator_ctor (vi_data p)) = e
   \<and> value_iterator_index T c k = value_iterator_deref (value_iterator_plus T c k)"
  by (simp add: value_iterator_distance_def value_iterator_plus_def value_iterator_index_def
      value_iterator_deref_def value_iterator_add_assign_def value_iterator_ctor_def
      integral_operators_def pointer_operators_def)

section \<open>Properties of the capability deduction\<close>

lemma satisfies_rand_access_iff: "satisfies_rand_access T = (is_integral T \<or> is_pointer T)"
  by (simp add: satisfies_rand_access_def call_with_nullptr_def enable_if_def)

lemma has_prefix_dec_iff: "has_prefix_dec T = (prefix_dec_expr T = Some Non_void_type)"
proof (cases "prefix_dec_expr T")
  case None
  then show ?thesis
    by (simp add: has_prefix_dec_def call_with_nullptr_def)
next
  case (Some t)
  then show ?thesis
    by (cases t) (simp_all add: has_prefix_dec_def call_with_nullptr_def enable_if_def)
qed

lemma add_assign_of_inc:
  "supports_prefix_inc T \<Longrightarrow> is_integral T \<or> is_pointer T \<Longrightarrow> supports_add_assign T"
  by (cases T rule: supports_add_assign.cases) simp_all

lemma random_access_iff:
  "(iterator_category T = Random_access_iterator_tag) = (is_integral T \<or> is_pointer T)"
  by (simp add: iterator_category_def satisfies_rand_access_iff)

lemma difference_type_Integral:
  "difference_type (Integral k) = Integral_difference (Signed_int (rank k))"
  by (simp add: difference_type_def call_with_nullptr_def enable_if_def)

lemma difference_type_not_integral:
  "\<not> is_integral T \<Longrightarrow> difference_type T = Ptrdiff_t"
  by (cases T) (simp_all add: difference_type_def call_with_nullptr_def)

text \<open>
  C3. For every element type whose value cursor is deduced random access, the difference
  type is a signed integer type: for an integral element type it is the signed integer
  type of the same rank, hence of the same width on every platform, and for a pointer
  element type it is \<^verbatim>\<open>std::ptrdiff_t\<close>, the signed type of pointer differences.
\<close>

theorem difference_type_signed:
  assumes "iterator_category T = Random_access_iterator_tag"
  shows "is_signed_integer (difference_type T)
    \<and> (\<forall>k. T = Integral k \<longrightarrow>
          difference_type T = Integral_difference (Signed_int (rank k))
          \<and> width bits (Signed_int (rank k)) = width bits k)
    \<and> (is_pointer T \<longrightarrow> difference_type T = Ptrdiff_t)"
proof -
  from assms have ra: "is_integral T \<or> is_pointer T"
    by (simp only: random_access_iff)
  show ?thesis
  proof (cases T)
    case (Integral k)
    then show ?thesis
      by (simp add: difference_type_Integral width_def)
  next
    case Floating_point
    with ra show ?thesis by simp
  next
    case (Pointer q)
    then show ?thesis
      by (simp add: difference_type_not_integral)
  next
    case (Class_type c)
    with ra show ?thesis by simp
  qed
qed

theorem difference_type_signed_witness:
  "iterator_category (Integral (Unsigned_int Short_rank)) = Random_access_iterator_tag
   \<and> difference_type (Integral (Unsigned_int Short_rank))
        = Integral_difference (Signed_int Short_rank)
   \<and> width (\<lambda>r. 16) (Signed_int Short_rank) = width (\<lambda>r. 16) (Unsigned_int Short_rank)
   \<and> iterator_category (Pointer Object_pointee) = Random_access_iterator_tag
   \<and> is_pointer (Pointer Object_pointee)
   \<and> difference_type (Pointer Object_pointee) = Ptrdiff_t"
proof -
  have i: "iterator_category (Integral (Unsigned_int Short_rank)) = Random_access_iterator_tag"
    by (simp add: random_access_iff)
  have p: "iterator_category (Pointer Object_pointee) = Random_access_iterator_tag"
    by (simp add: random_access_iff)
  show ?thesis
    using i p difference_type_signed [OF i, of "\<lambda>r. 16"] difference_type_signed [OF p, of "\<lambda>r. 16"]
    by simp
qed

text \<open>
  Where the traits class and the deduction as the specification words it can differ: for
  an element type with prefix increment they agree unless its prefix decrement has type
  \<^verbatim>\<open>void\<close>.
\<close>

lemma iterator_category_agrees_elsewhere:
  assumes inc: "supports_prefix_inc T" and nonvoid: "prefix_dec_expr T \<noteq> Some Void_type"
  shows "iterator_category T = spec_category T"
proof -
  have "is_integral T \<or> is_pointer T \<Longrightarrow> supports_add_assign T"
    using inc by (rule add_assign_of_inc)
  then have ra: "(supports_add_assign T \<and> numeric_or_address_like T) = satisfies_rand_access T"
    unfolding satisfies_rand_access_iff numeric_or_address_like_def by blast
  have dec: "supports_prefix_dec T = has_prefix_dec T"
  proof (cases "prefix_dec_expr T")
    case None
    then show ?thesis
      by (simp add: supports_prefix_dec_def has_prefix_dec_iff)
  next
    case (Some t)
    with nonvoid have "t = Non_void_type"
      by (cases t) simp_all
    with Some show ?thesis
      by (simp add: supports_prefix_dec_def has_prefix_dec_iff)
  qed
  show ?thesis
    by (simp only: iterator_category_def spec_category_def ra dec)
qed

text \<open>
  C4 (evaluation of the code). A class type with prefix increment, equality and a prefix
  decrement that returns \<^verbatim>\<open>void\<close>, and no compound add-assignment: it supports prefix
  decrement, so the three-step procedure makes it bidirectional, as the comments of the
  traits class do (``bidirectional if a \<^verbatim>\<open>--\<close> (prefix) operator exists''); the traits
  class deduces forward only, because its test of the decrement also asks that the
  expression is not of type \<^verbatim>\<open>void\<close>.
\<close>

theorem iterator_category_void_decrement:
  "supports_prefix_inc (Class_type (Class_ops True True (Some Void_type) False))
   \<and> supports_equality (Class_type (Class_ops True True (Some Void_type) False))
   \<and> supports_prefix_dec (Class_type (Class_ops True True (Some Void_type) False))
   \<and> spec_category (Class_type (Class_ops True True (Some Void_type) False))
        = Bidirectional_iterator_tag
   \<and> iterator_category (Class_type (Class_ops True True (Some Void_type) False))
        = Forward_iterator_tag"
  by (simp add: spec_category_def iterator_category_def satisfies_rand_access_iff
      has_prefix_dec_iff numeric_or_address_like_def supports_prefix_dec_def)

section \<open>Properties of the capability-gated interface\<close>

lemma enabled_tier: "tier cat < tier (required_category p) \<Longrightarrow> \<not> enabled cat p"
  by (cases cat; cases p) (simp_all add: bidirectional_def rand_access_def)

lemma forward_only_tier: "0 < tier (required_category p) \<Longrightarrow> \<not> forward_only p"
  by (cases p) simp_all

lemma exposes_tier: "tier (cursor_category c) < tier (required_category p) \<Longrightarrow> \<not> exposes c p"
  by (cases c) (auto simp add: enabled_tier forward_only_tier)

lemma enabled_forward: "enabled Forward_iterator_tag p = forward_only p"
  by (cases p) (simp_all add: bidirectional_def rand_access_def)

lemma only_inc_eq_forward:
  assumes "supports_prefix_inc T" "\<not> supports_prefix_dec T" "\<not> supports_add_assign T"
  shows "iterator_category T = Forward_iterator_tag"
proof -
  from assms(1,3) have "\<not> (is_integral T \<or> is_pointer T)"
    using add_assign_of_inc by blast
  moreover from assms(2) have "prefix_dec_expr T \<noteq> Some Non_void_type"
    by (simp add: supports_prefix_dec_def)
  ultimately show ?thesis
    by (simp add: iterator_category_def satisfies_rand_access_iff has_prefix_dec_iff)
qed

text \<open>
  C9. For every cursor type of the library and every operation that belongs to a higher
  capability tier than the cursor's category, the cursor type exposes no such operator
  and a call of it is a compile error; the outcome of a call is never anything but
  ``compiles'' or ``compile error''. In particular a value cursor over an element type
  with prefix increment and equality but neither prefix decrement nor compound
  add-assignment is forward only and exposes exactly dereference, arrow, the increments
  and the equality comparisons: none of the decrement, offset, index, distance or
  ordering operators.
\<close>

theorem unavailable_operation_compile_error:
  "(tier (cursor_category c) < tier (required_category p)
      \<longrightarrow> \<not> exposes c p \<and> resolve_call c p = Compile_error)
   \<and> (supports_prefix_inc T \<and> supports_equality T
        \<and> \<not> supports_prefix_dec T \<and> \<not> supports_add_assign T
      \<longrightarrow> cursor_category (Value_iterator T) = Forward_iterator_tag
        \<and> exposes (Value_iterator T) q = forward_only q
        \<and> resolve_call (Value_iterator T) Op_pre_dec = Compile_error
        \<and> resolve_call (Value_iterator T) Op_post_dec = Compile_error
        \<and> resolve_call (Value_iterator T) Op_add_assign = Compile_error
        \<and> resolve_call (Value_iterator T) Op_sub_assign = Compile_error
        \<and> resolve_call (Value_iterator T) Op_plus = Compile_error
        \<and> resolve_call (Value_iterator T) Op_minus = Compile_error
        \<and> resolve_call (Value_iterator T) Op_index = Compile_error
        \<and> resolve_call (Value_iterator T) Op_distance = Compile_error)"
proof -
  have gate: "tier (cursor_category c) < tier (required_category p)
      \<longrightarrow> \<not> exposes c p \<and> resolve_call c p = Compile_error"
    by (simp add: exposes_tier resolve_call_def)
  have only: "supports_prefix_inc T \<and> supports_equality T
        \<and> \<not> supports_prefix_dec T \<and> \<not> supports_add_assign T
      \<longrightarrow> cursor_category (Value_iterator T) = Forward_iterator_tag
        \<and> exposes (Value_iterator T) q = forward_only q
        \<and> resolve_call (Value_iterator T) Op_pre_dec = Compile_error
        \<and> resolve_call (Value_iterator T) Op_post_dec = Compile_error
        \<and> resolve_call (Value_iterator T) Op_add_assign = Compile_error
        \<and> resolve_call (Value_iterator T) Op_sub_assign = Compile_error
        \<and> resolve_call (Value_iterator T) Op_plus = Compile_error
        \<and> resolve_call (Value_iterator T) Op_minus = Compile_error
        \<and> resolve_call (Value_iterator T) Op_index = Compile_error
        \<and> resolve_call (Value_iterator T) Op_distance = Compile_error"
  proof
    assume a: "supports_prefix_inc T \<and> supports_equality T
        \<and> \<not> supports_prefix_dec T \<and> \<not> supports_add_assign T"
    then have f: "iterator_category T = Forward_iterator_tag"
      by (simp add: only_inc_eq_forward)
    then show "cursor_category (Value_iterator T) = Forward_iterator_tag
        \<and> exposes (Value_iterator T) q = forward_only q
        \<and> resolve_call (Value_iterator T) Op_pre_dec = Compile_error
        \<and> resolve_call (Value_iterator T) Op_post_dec = Compile_error
        \<and> resolve_call (Value_iterator T) Op_add_assign = Compile_error
        \<and> resolve_call (Value_iterator T) Op_sub_assign = Compile_error
        \<and> resolve_call (Value_iterator T) Op_plus = Compile_error
        \<and> resolve_call (Value_iterator T) Op_minus = Compile_error
        \<and> resolve_call (Value_iterator T) Op_index = Compile_error
        \<and> resolve_call (Value_iterator T) Op_distance = Compile_error"
      by (simp add: enabled_forward resolve_call_def bidirectional_def rand_access_def)
  qed
  from gate only show ?thesis
    by (rule conjI)
qed

theorem unavailable_operation_compile_error_witness:
  "tier (cursor_category (Count_iterator (Value_iterator (Class_type (Class_ops True True None False)))))
      < tier (required_category Op_pre_dec)
   \<and> resolve_call (Count_iterator (Value_iterator (Class_type (Class_ops True True None False))))
        Op_pre_dec = Compile_error
   \<and> tier (cursor_category (Value_iterator (Class_type (Class_ops True True (Some Non_void_type) False))))
      < tier (required_category Op_add_assign)
   \<and> resolve_call (Value_iterator (Class_type (Class_ops True True (Some Non_void_type) False)))
        Op_add_assign = Compile_error
   \<and> supports_prefix_inc (Class_type (Class_ops True True None False))
   \<and> supports_equality (Class_type (Class_ops True True None False))
   \<and> \<not> supports_prefix_dec (Class_type (Class_ops True True None False))
   \<and> \<not> supports_add_assign (Class_type (Class_ops True True None False))
   \<and> \<not> exposes (Value_iterator (Class_type (Class_ops True True None False))) Op_pre_dec
   \<and> \<not> exposes (Value_iterator (Class_type (Class_ops True True None False))) Op_add_assign
   \<and> exposes (Value_iterator (Class_type (Class_ops True True None False))) Op_pre_inc"
  using unavailable_operation_compile_error
      [of "Count_iterator (Value_iterator (Class_type (Class_ops True True None False)))"
          Op_pre_dec "Class_type (Class_ops True True None False)" Op_pre_dec]
    unavailable_operation_compile_error
      [of "Value_iterator (Class_type (Class_ops True True (Some Non_void_type) False))"
          Op_add_assign "Class_type (Class_ops True True None False)" Op_add_assign]
    unavailable_operation_compile_error
      [of "Value_iterator (Class_type (Class_ops True True None False))"
          Op_index "Class_type (Class_ops True True None False)" Op_pre_inc]
  by (simp add: iterator_category_def satisfies_rand_access_iff has_prefix_dec_iff
      supports_prefix_dec_def)

section \<open>Independence of copied function cursors\<close>

lemma func_iterator_copy_eq: "func_iterator_copy (x :: ('f, 'v) func_iterator) = x"
  by (simp add: func_iterator_copy_def)

lemma func_iterator_assign_eq: "func_iterator_assign (y :: ('f, 'v) func_iterator) x = x"
  by (simp add: func_iterator_assign_def)

lemma object_at_Some: "object_at (Some h) p = h p"
  by (simp add: object_at_def)

lemma pre_inc_times_live:
  fixes h :: "('f, 'v) objects"
  shows "h p = Some it \<Longrightarrow>
   pre_inc_times call p n h = Some (h(p \<mapsto> (func_iterator_pre_inc call ^^ n) it))"
proof (induction n arbitrary: h it)
  case 0
  then show ?case by (simp add: fun_upd_idem)
next
  case (Suc n)
  let ?f = "func_iterator_pre_inc call"
  have pow: "(?f ^^ Suc n) it = (?f ^^ n) (?f it)"
    by (simp add: funpow_swap1)
  have step: "pre_inc_at call h p = Some (h(p \<mapsto> ?f it))"
    using Suc.prems by (simp add: pre_inc_at_def)
  have "pre_inc_times call p (Suc n) h = pre_inc_times call p n (h(p \<mapsto> ?f it))"
    by (simp add: step)
  also have "\<dots> = Some ((h(p \<mapsto> ?f it))(p \<mapsto> (?f ^^ n) (?f it)))"
    by (rule Suc.IH) simp
  also have "(h(p \<mapsto> ?f it))(p \<mapsto> (?f ^^ n) (?f it)) = h(p \<mapsto> (?f ^^ Suc n) it)"
    by (simp only: fun_upd_upd pow)
  finally show ?case .
qed

text \<open>
  C10. Let \<open>a\<close> and \<open>b\<close> be distinct addresses, \<open>a\<close> holding a pull-variant function
  cursor \<open>x\<close>. After copy-constructing a cursor at \<open>b\<close> from the one at \<open>a\<close>, or
  copy-assigning the one at \<open>a\<close> to a cursor at \<open>b\<close>, any number of increments of either
  cursor succeeds and leaves the other one, cached value and stored callable, exactly as it
  was: the incremented one has advanced \<open>n\<close> times, the other is still \<open>x\<close>.
\<close>

theorem func_iterator_copies_independent:
  fixes h g :: "('f, 'v) objects"
  assumes "a \<noteq> b" and "h a = Some x" and "h b = None" and "g a = Some x" and "g b = Some y"
  shows "object_at (Option.bind (copy_construct_at h b a) (pre_inc_times call b n)) a = Some x
    \<and> object_at (Option.bind (copy_construct_at h b a) (pre_inc_times call b n)) b
        = Some ((func_iterator_pre_inc call ^^ n) x)
    \<and> object_at (Option.bind (copy_construct_at h b a) (pre_inc_times call a n)) b = Some x
    \<and> object_at (Option.bind (copy_construct_at h b a) (pre_inc_times call a n)) a
        = Some ((func_iterator_pre_inc call ^^ n) x)
    \<and> object_at (Option.bind (copy_assign_at g b a) (pre_inc_times call b n)) a = Some x
    \<and> object_at (Option.bind (copy_assign_at g b a) (pre_inc_times call b n)) b
        = Some ((func_iterator_pre_inc call ^^ n) x)
    \<and> object_at (Option.bind (copy_assign_at g b a) (pre_inc_times call a n)) b = Some x
    \<and> object_at (Option.bind (copy_assign_at g b a) (pre_inc_times call a n)) a
        = Some ((func_iterator_pre_inc call ^^ n) x)"
proof -
  let ?F = "(func_iterator_pre_inc call ^^ n) x"
  have cc: "copy_construct_at h b a = Some (h(b \<mapsto> x))"
    using assms by (simp add: copy_construct_at_def func_iterator_copy_eq)
  have ca: "copy_assign_at g b a = Some (g(b \<mapsto> x))"
    using assms by (simp add: copy_assign_at_def func_iterator_assign_eq)
  have hb: "pre_inc_times call b n (h(b \<mapsto> x)) = Some ((h(b \<mapsto> x))(b \<mapsto> ?F))"
    by (rule pre_inc_times_live) simp
  have ha: "pre_inc_times call a n (h(b \<mapsto> x)) = Some ((h(b \<mapsto> x))(a \<mapsto> ?F))"
    by (rule pre_inc_times_live) (use assms in simp)
  have gb: "pre_inc_times call b n (g(b \<mapsto> x)) = Some ((g(b \<mapsto> x))(b \<mapsto> ?F))"
    by (rule pre_inc_times_live) simp
  have ga: "pre_inc_times call a n (g(b \<mapsto> x)) = Some ((g(b \<mapsto> x))(a \<mapsto> ?F))"
    by (rule pre_inc_times_live) (use assms in simp)
  have c1: "object_at (Option.bind (copy_construct_at h b a) (pre_inc_times call b n)) a = Some x"
    unfolding cc Option.bind.simps hb object_at_Some using assms(1,2) by simp
  have c2: "object_at (Option.bind (copy_construct_at h b a) (pre_inc_times call b n)) b = Some ?F"
    unfolding cc Option.bind.simps hb object_at_Some by simp
  have c3: "object_at (Option.bind (copy_construct_at h b a) (pre_inc_times call a n)) b = Some x"
    unfolding cc Option.bind.simps ha object_at_Some using assms(1) by simp
  have c4: "object_at (Option.bind (copy_construct_at h b a) (pre_inc_times call a n)) a = Some ?F"
    unfolding cc Option.bind.simps ha object_at_Some by simp
  have c5: "object_at (Option.bind (copy_assign_at g b a) (pre_inc_times call b n)) a = Some x"
    unfolding ca Option.bind.simps gb object_at_Some using assms(1,4) by simp
  have c6: "object_at (Option.bind (copy_assign_at g b a) (pre_inc_times call b n)) b = Some ?F"
    unfolding ca Option.bind.simps gb object_at_Some by simp
  have c7: "object_at (Option.bind (copy_assign_at g b a) (pre_inc_times call a n)) b = Some x"
    unfolding ca Option.bind.simps ga object_at_Some using assms(1) by simp
  have c8: "object_at (Option.bind (copy_assign_at g b a) (pre_inc_times call a n)) a = Some ?F"
    unfolding ca Option.bind.simps ga object_at_Some by simp
  from c1 c2 c3 c4 c5 c6 c7 c8 show ?thesis
    by (intro conjI)
qed

theorem func_iterator_copies_independent_witness:
  "(0 :: nat) \<noteq> 1
   \<and> object_at (Option.bind
         (copy_construct_at (Map.empty(0 \<mapsto> func_iterator_ctor squares 0)) 1 0)
         (pre_inc_times squares 1 2)) 0 = Some \<lparr>fi_value = 1, fi_func = 1\<rparr>
   \<and> object_at (Option.bind
         (copy_construct_at (Map.empty(0 \<mapsto> func_iterator_ctor squares 0)) 1 0)
         (pre_inc_times squares 1 2)) 1 = Some \<lparr>fi_value = 9, fi_func = 3\<rparr>
   \<and> object_at (Option.bind
         (copy_assign_at (Map.empty(0 \<mapsto> func_iterator_ctor squares 0, 1 \<mapsto> func_iterator_ctor squares 5)) 1 0)
         (pre_inc_times squares 0 2)) 1 = Some \<lparr>fi_value = 1, fi_func = 1\<rparr>
   \<and> object_at (Option.bind
         (copy_assign_at (Map.empty(0 \<mapsto> func_iterator_ctor squares 0, 1 \<mapsto> func_iterator_ctor squares 5)) 1 0)
         (pre_inc_times squares 0 2)) 0 = Some \<lparr>fi_value = 9, fi_func = 3\<rparr>"
  using func_iterator_copies_independent
    [where a = 0 and b = 1
       and h = "Map.empty(0 \<mapsto> func_iterator_ctor squares 0)"
       and x = "func_iterator_ctor squares 0"
       and g = "Map.empty(0 \<mapsto> func_iterator_ctor squares 0, 1 \<mapsto> func_iterator_ctor squares 5)"
       and y = "func_iterator_ctor squares 5"
       and call = squares and n = 2]
  by (simp add: func_iterator_ctor_def squares_def func_iterator_pre_inc_def eval_nat_numeral)

end
